theory Spec2Isabelle
  imports Complex_Main
begin

section \<open>The text progress bar of progressbar.py\<close>

text \<open>
  The development embeds the classes \<open>ProgressBar\<close> and \<open>MultiStageProgressBar\<close> of
  \<^verbatim>\<open>progressbar.py\<close> together with the widgets they lay out.

  Numbers. Progress values, maxima and column counts are Python integers (\<open>int\<close>).
  The percentage \<^verbatim>\<open>currval*100.0/maxval\<close>, clock readings and width fractions are
  Python floats; they are represented by the rational number the expression denotes, so
  rounding of the binary representation is outside the model.

  Effects. The output stream \<^verbatim>\<open>fd\<close> is the list of strings written to it, the clock
  \<^verbatim>\<open>time.time()\<close> is a sequence of readings consumed one per call, and the
  disposition of the window-resize signal is a flag. A resize signal that arrives between
  two calls is not part of the model: the width is set by the constructor only. An
  operation takes the object
  and the world and returns both; a raised exception is returned as a value together with
  the object and world as they are at the moment of the raise.
\<close>

subsection \<open>Python helpers\<close>

datatype error = AssertionError | IndexError | ZeroDivisionError | AttributeError

datatype 'a res = Ok 'a | Raise error 'a

type_synonym clock = "nat \<Rightarrow> rat"

record world =
  ticks :: nat
  sink :: "string list"
  winch_handler :: bool

definition time_time :: "clock \<Rightarrow> world \<Rightarrow> rat \<times> world" where
  "time_time clk w = (clk (ticks w), w\<lparr>ticks := Suc (ticks w)\<rparr>)"

definition fd_write :: "string \<Rightarrow> world \<Rightarrow> world" where
  "fd_write s w = w\<lparr>sink := sink w @ [s]\<rparr>"

definition py_int :: "rat \<Rightarrow> int" where
  \<comment> \<open>\<^verbatim>\<open>int(x)\<close> on a float: truncation towards zero\<close>
  "py_int x = (if 0 \<le> x then \<lfloor>x\<rfloor> else \<lceil>x\<rceil>)"

definition py_index :: "nat \<Rightarrow> int \<Rightarrow> nat option" where
  \<comment> \<open>the position an index denotes in a list of \<open>n\<close> elements: a negative index counts
      from the end, \<open>None\<close> when the access raises IndexError\<close>
  "py_index n i =
     (if 0 \<le> i \<and> i < int n then Some (nat i)
      else if - int n \<le> i \<and> i < 0 then Some (nat (int n + i))
      else None)"

definition py_get :: "'a list \<Rightarrow> int \<Rightarrow> 'a option" where
  \<comment> \<open>\<^verbatim>\<open>xs[i]\<close>\<close>
  "py_get xs i = map_option (\<lambda>j. xs ! j) (py_index (length xs) i)"

definition py_set :: "'a list \<Rightarrow> int \<Rightarrow> 'a \<Rightarrow> 'a list option" where
  \<comment> \<open>\<^verbatim>\<open>xs[i] = v\<close>\<close>
  "py_set xs i v = map_option (\<lambda>j. xs[j := v]) (py_index (length xs) i)"

definition ljust :: "string \<Rightarrow> int \<Rightarrow> string" where
  "ljust s n = s @ replicate (nat (n - int (length s))) (CHR '' '')"

definition rjust :: "string \<Rightarrow> int \<Rightarrow> string" where
  "rjust s n = replicate (nat (n - int (length s))) (CHR '' '') @ s"

definition str_mul :: "string \<Rightarrow> int \<Rightarrow> string" where
  \<comment> \<open>\<^verbatim>\<open>s * k\<close>, empty for \<open>k \<le> 0\<close>\<close>
  "str_mul s k = concat (replicate (nat k) s)"

fun str_nat :: "nat \<Rightarrow> string" where
  "str_nat n =
     (if n < 10 then [''0123456789'' ! n]
      else str_nat (n div 10) @ [''0123456789'' ! (n mod 10)])"

declare str_nat.simps [simp del]

definition str_int :: "int \<Rightarrow> string" where
  \<comment> \<open>the conversion \<^verbatim>\<open>%d\<close>\<close>
  "str_int i = (if i < 0 then CHR ''-'' # str_nat (nat (- i)) else str_nat (nat i))"

definition two_digits :: "int \<Rightarrow> string" where
  \<comment> \<open>a field of \<^verbatim>\<open>strftime\<close> such as \<^verbatim>\<open>%H\<close>: two digits, zero padded\<close>
  "two_digits i = replicate (2 - length (str_int i)) (CHR ''0'') @ str_int i"

subsection \<open>The tracker's fields and the widgets\<close>

text \<open>
  A widget's \<^verbatim>\<open>update\<close> method receives the calling bar and reads its attributes.
  \<open>pbar_state\<close> holds these attributes; \<open>ProgressBar\<close> extends it with the widget list.
  A widget is a string, a \<^verbatim>\<open>ProgressBarWidget\<close> (its \<^verbatim>\<open>update(pbar)\<close>) or a
  \<^verbatim>\<open>ProgressBarWidgetHFill\<close> (its \<^verbatim>\<open>update(pbar, width)\<close>). A widget is
  represented by the string it returns for a bar, so the properties below hold for every
  widget of that kind, the user's own included. \<^verbatim>\<open>Counter\<close> copies two attributes of
  the bar into itself before it prints them; the copies never reach a later output and are
  left out. \<^verbatim>\<open>FileTransferSpeed\<close> is a widget of the kind \<open>Dynamic\<close>.
  \<^verbatim>\<open>RotatingMarker\<close> keeps a cursor between calls and is the one built-in widget
  that is not a function of the bar; its cursor is not represented.
\<close>

record pbar_state =
  maxval :: int
  term_width :: int
  signal_set :: bool
  currval :: int
  finished :: bool
  prev_percentage :: rat
  start_time :: "rat option"
  seconds_elapsed :: rat

datatype widget =
    Literal string
  | Dynamic "pbar_state \<Rightarrow> string"
  | HFill "pbar_state \<Rightarrow> int \<Rightarrow> string"

record ProgressBar = pbar_state +
  widgets :: "widget list"

definition view :: "ProgressBar \<Rightarrow> pbar_state" where
  "view pb = pbar_state.truncate pb"

definition percentage :: "'a pbar_state_scheme \<Rightarrow> rat" where
  \<comment> \<open>\<^verbatim>\<open>maxval > 0\<close> is asserted by the constructor and the field is never assigned again\<close>
  "percentage pb = of_int (currval pb) * 100 / of_int (maxval pb)"

subsection \<open>The built-in widgets\<close>

definition format_time :: "rat \<Rightarrow> string" where
  \<comment> \<open>\<^verbatim>\<open>time.strftime('%H:%M:%S', time.gmtime(seconds))\<close>: whole seconds, hours modulo 24\<close>
  "format_time seconds =
     (let s = py_int seconds
      in two_digits ((s div 3600) mod 24) @ '':'' @ two_digits ((s div 60) mod 60)
           @ '':'' @ two_digits (s mod 60))"

definition ETA :: "pbar_state \<Rightarrow> string" where
  "ETA pbar =
     (if currval pbar = 0 then ''ETA:    --:--:--''
      else if finished pbar then ''Time: '' @ format_time (seconds_elapsed pbar)
      else (let elapsed = seconds_elapsed pbar;
                eta = elapsed * of_int (maxval pbar) / of_int (currval pbar) - elapsed
            in ''ETA:    '' @ format_time eta))"

definition Percentage :: "pbar_state \<Rightarrow> string" where
  \<comment> \<open>\<^verbatim>\<open>'%3d%%' % pbar.percentage()\<close>\<close>
  "Percentage pbar = rjust (str_int (py_int (percentage pbar))) 3 @ ''%''"

definition Counter :: "pbar_state \<Rightarrow> string" where
  \<comment> \<open>\<^verbatim>\<open>"%d / %d" % (self.currval, self.maxval)\<close>, both just copied from the bar\<close>
  "Counter pbar = str_int (currval pbar) @ '' / '' @ str_int (maxval pbar)"

datatype marker = MarkerStr string | MarkerWidget "pbar_state \<Rightarrow> string"

definition format_marker :: "marker \<Rightarrow> pbar_state \<Rightarrow> string" where
  "format_marker mk pbar = (case mk of MarkerStr s \<Rightarrow> s | MarkerWidget f \<Rightarrow> f pbar)"

definition Bar :: "marker \<Rightarrow> string \<Rightarrow> string \<Rightarrow> pbar_state \<Rightarrow> int \<Rightarrow> string" where
  "Bar mk left right pbar width =
     (let percent = percentage pbar;
          cwidth = width - int (length left) - int (length right);
          marked_width = py_int (percent * of_int cwidth / 100);
          m = format_marker mk pbar
      in left @ ljust (str_mul m marked_width) cwidth @ right)"


definition default_widgets :: "widget list" where
  "default_widgets =
     [Dynamic Percentage, Literal '' '', HFill (Bar (MarkerStr ''#'') ''|'' ''|''),
      Literal '' '', Dynamic Counter, Literal '' '', Dynamic ETA]"

subsection \<open>ProgressBar\<close>

definition ProgressBar_init ::
  "int \<Rightarrow> widget list \<Rightarrow> int option \<Rightarrow> string option \<Rightarrow> int option \<Rightarrow> world
     \<Rightarrow> error + (ProgressBar \<times> world)" where
  \<comment> \<open>\<open>tty\<close> is the answer of the terminal to the width query: \<open>None\<close> when
      \<^verbatim>\<open>handle_resize\<close> raises\<close>
  "ProgressBar_init mv ws tw title tty w =
     (if \<not> 0 < mv then Inl AssertionError
      else
        let ws' = (case title of None \<Rightarrow> ws
                   | Some t \<Rightarrow> if t \<noteq> [] then Literal t # ws else ws);
            (width, sset, w') =
               (case tw of
                  None \<Rightarrow> (case tty of
                             Some c \<Rightarrow> (c, True, w\<lparr>winch_handler := True\<rparr>)
                           | None \<Rightarrow> (79, False, w))
                | Some c \<Rightarrow> (c, False, w))
        in Inr (\<lparr>maxval = mv, term_width = width, signal_set = sset, currval = 0,
                  finished = False, prev_percentage = - 1, start_time = None,
                  seconds_elapsed = 0, widgets = ws'\<rparr>, w'))"

text \<open>
  \<^verbatim>\<open>_format_widgets\<close>: the first loop keeps the fill widgets, evaluates the others and
  adds up their lengths; the second loop calls every fill widget with the same width.
\<close>

fun format_pass1 ::
  "pbar_state \<Rightarrow> widget list \<Rightarrow> (widget + string) list \<times> int \<times> int
     \<Rightarrow> (widget + string) list \<times> int \<times> int" where
  "format_pass1 pbar [] acc = acc"
| "format_pass1 pbar (w # ws) (r, num_hfill, currwidth) =
     (case w of
        HFill f \<Rightarrow> format_pass1 pbar ws (r @ [Inl w], num_hfill + 1, currwidth)
      | Literal s \<Rightarrow> format_pass1 pbar ws (r @ [Inr s], num_hfill, currwidth + int (length s))
      | Dynamic g \<Rightarrow>
          (let weval = g pbar
           in format_pass1 pbar ws (r @ [Inr weval], num_hfill, currwidth + int (length weval))))"

definition format_pass2 :: "pbar_state \<Rightarrow> int \<Rightarrow> (widget + string) \<Rightarrow> string" where
  "format_pass2 pbar width x =
     (case x of
        Inr s \<Rightarrow> s
      | Inl (HFill f) \<Rightarrow> f pbar width
      | Inl _ \<Rightarrow> [])"

definition format_widgets :: "ProgressBar \<Rightarrow> string list" where
  \<comment> \<open>\<^verbatim>\<open>/\<close> on two integers is floor division; it is reached only when a fill widget is
      present, so \<open>num_hfill\<close> is not zero there\<close>
  "format_widgets pb =
     (let (r, num_hfill, currwidth) = format_pass1 (view pb) (widgets pb) ([], 0, 0)
      in map (format_pass2 (view pb) ((term_width pb - currwidth) div num_hfill)) r)"

definition format_line :: "ProgressBar \<Rightarrow> string" where
  "format_line pb = ljust (concat (format_widgets pb)) (term_width pb)"

definition need_update :: "'a pbar_state_scheme \<Rightarrow> bool" where
  "need_update pb = (percentage pb \<noteq> prev_percentage pb)"

definition truthy_time :: "rat option \<Rightarrow> bool" where
  \<comment> \<open>the truth value of \<^verbatim>\<open>self.start_time\<close>: \<^verbatim>\<open>None\<close> and \<^verbatim>\<open>0.0\<close> are false\<close>
  "truthy_time t = (case t of None \<Rightarrow> False | Some x \<Rightarrow> x \<noteq> 0)"

definition pb_update0 ::
  "clock \<Rightarrow> int option \<Rightarrow> ProgressBar \<times> world \<Rightarrow> (ProgressBar \<times> world) res" where
  \<comment> \<open>the method \<^verbatim>\<open>_update\<close>\<close>
  "pb_update0 clk value s =
     (let (pb, w) = s;
          v = (case value of None \<Rightarrow> currval pb + 1 | Some x \<Rightarrow> x)
      in if \<not> 0 \<le> v then Raise AssertionError (pb, w)
         else if \<not> v \<le> maxval pb then Raise AssertionError (pb, w)
         else
           let pb1 = pb\<lparr>currval := v\<rparr>
           in if \<not> need_update pb1 \<or> finished pb1 then Ok (pb1, w)
              else
                let (pb2, w2) =
                      (if \<not> truthy_time (start_time pb1)
                       then (let (t, w') = time_time clk w in (pb1\<lparr>start_time := Some t\<rparr>, w'))
                       else (pb1, w));
                    (t2, w3) = time_time clk w2;
                    pb3 = pb2\<lparr>seconds_elapsed := t2 - the (start_time pb2)\<rparr>;
                    pb4 = pb3\<lparr>prev_percentage := percentage pb3\<rparr>;
                    pb5 = pb4\<lparr>finished := (currval pb4 = maxval pb4)\<rparr>
                in Ok (pb5, w3))"

definition pb_update ::
  "clock \<Rightarrow> int option \<Rightarrow> ProgressBar \<times> world \<Rightarrow> (ProgressBar \<times> world) res" where
  \<comment> \<open>the method \<^verbatim>\<open>update\<close>\<close>
  "pb_update clk value s =
     (case pb_update0 clk value s of
        Raise e s' \<Rightarrow> Raise e s'
      | Ok (pb, w) \<Rightarrow>
          (if finished pb then Ok (pb, fd_write (format_line pb @ [CHR 0x0A]) w)
           else Ok (pb, fd_write (format_line pb @ [CHR 0x0D]) w)))"

definition pb_start :: "clock \<Rightarrow> ProgressBar \<times> world \<Rightarrow> (ProgressBar \<times> world) res" where
  "pb_start clk s = pb_update clk (Some 0) s"

definition pb_finish :: "clock \<Rightarrow> ProgressBar \<times> world \<Rightarrow> (ProgressBar \<times> world) res" where
  "pb_finish clk s =
     (let (pb, w) = s;
          r = (if \<not> finished pb then pb_update clk (Some (maxval pb)) (pb\<lparr>finished := True\<rparr>, w)
               else Ok (pb, w))
      in case r of
           Raise e s' \<Rightarrow> Raise e s'
         | Ok (pb', w') \<Rightarrow>
             (if signal_set pb' then Ok (pb', w'\<lparr>winch_handler := False\<rparr>) else Ok (pb', w')))"

subsection \<open>MultiStageProgressBar\<close>

text \<open>
  The attribute \<^verbatim>\<open>signal_set\<close> of a multi-stage bar is assigned only when the
  terminal answers the width query, so it is optional here. The constructor never passes
  its \<^verbatim>\<open>widgets\<close> argument on: every stage is laid out with the default widgets.
\<close>

record MultiStageProgressBar =
  maxvals :: "int list"
  num_stages :: nat
  ms_finished :: bool
  titles :: "string list"
  ms_term_width :: int
  ms_signal_set :: "bool option"
  stage_widths :: "int list"
  pbars :: "ProgressBar list"
  cascade :: bool
  update_calls :: nat

definition bindR :: "'s res \<Rightarrow> ('s \<Rightarrow> 's res) \<Rightarrow> 's res" where
  "bindR r f = (case r of Ok s \<Rightarrow> f s | Raise e s \<Rightarrow> Raise e s)"

definition stage_pbar :: "int \<Rightarrow> string \<Rightarrow> int \<Rightarrow> world \<Rightarrow> error + ProgressBar" where
  \<comment> \<open>\<^verbatim>\<open>ProgressBar(maxval=x, title=t, term_width=c)\<close>: with a width given the
      constructor leaves the world alone\<close>
  "stage_pbar x t c w =
     (case ProgressBar_init x default_widgets (Some c) (Some t) None w of
        Inl e \<Rightarrow> Inl e
      | Inr (pb, _) \<Rightarrow> Inr pb)"

fun build_pbars :: "(int \<times> string \<times> int) list \<Rightarrow> world \<Rightarrow> error + ProgressBar list" where
  "build_pbars [] w = Inr []"
| "build_pbars ((x, t, c) # xs) w =
     (case stage_pbar x t c w of
        Inl e \<Rightarrow> Inl e
      | Inr pb \<Rightarrow> (case build_pbars xs w of Inl e \<Rightarrow> Inl e | Inr pbs \<Rightarrow> Inr (pb # pbs)))"

definition initial_stage_widths :: "int \<Rightarrow> rat list \<Rightarrow> int list" where
  \<comment> \<open>the two statements below the comment "correct for integer division remainders"\<close>
  "initial_stage_widths tw fracs =
     (let sw = map (\<lambda>st_w. py_int (of_int tw * st_w)) fracs
      in sw[length sw - 1 := last sw + (tw - sum_list sw)])"

definition MultiStageProgressBar_init ::
  "int list \<Rightarrow> rat list option \<Rightarrow> string list option \<Rightarrow> bool \<Rightarrow> int option \<Rightarrow> world
     \<Rightarrow> error + (MultiStageProgressBar \<times> world)" where
  "MultiStageProgressBar_init mvs term_widths ttls casc tty w =
     (let n = length mvs;
          given_titles = (case ttls of None \<Rightarrow> [] | Some ts \<Rightarrow> ts);
          given_widths = (case term_widths of None \<Rightarrow> [] | Some fs \<Rightarrow> fs)
      in if given_titles \<noteq> [] \<and> n \<noteq> length given_titles then Inl AssertionError
         else
           let ts = (if given_titles \<noteq> [] then given_titles else replicate n []);
               (tw, sset, w1) =
                  (case tty of Some c \<Rightarrow> (c, Some True, w\<lparr>winch_handler := True\<rparr>)
                   | None \<Rightarrow> (79, None, w))
           in if given_widths \<noteq> [] \<and> length given_widths \<noteq> n then Inl AssertionError
              else if given_widths \<noteq> [] \<and> sum_list given_widths \<noteq> 1 then Inl AssertionError
              else if given_widths = [] \<and> n = 0 then Inl ZeroDivisionError
              else
                let fracs = (if given_widths \<noteq> [] then given_widths
                             else replicate n (1 / of_nat n));
                    sw = initial_stage_widths tw fracs;
                    ts' = take 1 ts @ map (\<lambda>t. CHR '' '' # t) (drop 1 ts);
                    sw' = take 1 sw @ map (\<lambda>c. c - 1) (drop 1 sw)
                in case build_pbars (zip mvs (zip ts' sw')) w1 of
                     Inl e \<Rightarrow> Inl e
                   | Inr pbs \<Rightarrow>
                       Inr (\<lparr>maxvals = mvs, num_stages = n, ms_finished = False, titles = ts',
                             ms_term_width = tw, ms_signal_set = sset, stage_widths = sw',
                             pbars = pbs, cascade = casc, update_calls = 0\<rparr>, w1))"

fun update_all ::
  "clock \<Rightarrow> (ProgressBar \<Rightarrow> int) \<Rightarrow> ProgressBar list \<Rightarrow> world
     \<Rightarrow> (ProgressBar list \<times> world) res" where
  \<comment> \<open>\<^verbatim>\<open>for pbar in self._pbars: pbar._update(f(pbar))\<close>\<close>
  "update_all clk f [] w = Ok ([], w)"
| "update_all clk f (pb # pbs) w =
     (case pb_update0 clk (Some (f pb)) (pb, w) of
        Raise e (pb', w') \<Rightarrow> Raise e (pb' # pbs, w')
      | Ok (pb', w') \<Rightarrow>
          (case update_all clk f pbs w' of
             Raise e (pbs', w'') \<Rightarrow> Raise e (pb' # pbs', w'')
           | Ok (pbs', w'') \<Rightarrow> Ok (pb' # pbs', w'')))"



definition reset_one ::
  "int \<Rightarrow> MultiStageProgressBar \<times> world \<Rightarrow> (MultiStageProgressBar \<times> world) res" where
  \<comment> \<open>\<^verbatim>\<open>self._pbars[st] = ProgressBar(maxval=self.maxvals[st], title=self.titles[st],
      term_width=self.stage_widths[st])\<close>\<close>
  "reset_one st s =
     (let (ms, w) = s
      in case py_get (maxvals ms) st of
           None \<Rightarrow> Raise IndexError (ms, w)
         | Some x \<Rightarrow>
        (case py_get (titles ms) st of
           None \<Rightarrow> Raise IndexError (ms, w)
         | Some t \<Rightarrow>
        (case py_get (stage_widths ms) st of
           None \<Rightarrow> Raise IndexError (ms, w)
         | Some c \<Rightarrow>
        (case stage_pbar x t c w of
           Inl e \<Rightarrow> Raise e (ms, w)
         | Inr pb \<Rightarrow>
        (case py_set (pbars ms) st pb of
           None \<Rightarrow> Raise IndexError (ms, w)
         | Some pbs \<Rightarrow> Ok (ms\<lparr>pbars := pbs\<rparr>, w))))))"

fun reset_each ::
  "int list \<Rightarrow> MultiStageProgressBar \<times> world \<Rightarrow> (MultiStageProgressBar \<times> world) res" where
  "reset_each [] s = Ok s"
| "reset_each (st # sts) s = bindR (reset_one st s) (reset_each sts)"

definition reset_stage ::
  "int \<Rightarrow> int option \<Rightarrow> string option \<Rightarrow> MultiStageProgressBar \<times> world
     \<Rightarrow> (MultiStageProgressBar \<times> world) res" where
  "reset_stage stage mv title s =
     (let (ms, w) = s;
          r1 = (case mv of
                  None \<Rightarrow> Ok (ms, w)
                | Some m \<Rightarrow>
                    if m \<noteq> 0
                    then (case py_set (maxvals ms) stage m of
                            None \<Rightarrow> Raise IndexError (ms, w)
                          | Some xs \<Rightarrow> Ok (ms\<lparr>maxvals := xs\<rparr>, w))
                    else Ok (ms, w));
          set_t = (\<lambda>(ms, w).
                  case title of
                    None \<Rightarrow> Ok (ms, w)
                  | Some t \<Rightarrow>
                      if t \<noteq> []
                      then (case py_set (titles ms) stage t of
                              None \<Rightarrow> Raise IndexError (ms, w)
                            | Some ts \<Rightarrow> Ok (ms\<lparr>titles := ts\<rparr>, w))
                      else Ok (ms, w));
          loop = (\<lambda>(ms, w).
                  reset_each (if cascade ms then [stage .. int (num_stages ms) - 1] else [stage])
                    (ms, w))
      in bindR (bindR (bindR r1 set_t) (reset_one stage)) loop)"

definition print_bars :: "MultiStageProgressBar \<times> world \<Rightarrow> MultiStageProgressBar \<times> world" where
  "print_bars s =
     (let (ms, w) = s;
          out_str = concat (map format_line (pbars ms))
      in if ms_finished ms then (ms, fd_write (out_str @ [CHR 0x0A]) w)
         else (ms, fd_write (out_str @ [CHR 0x0D]) w))"

function ms_update ::
  "clock \<Rightarrow> int option \<Rightarrow> int option \<Rightarrow> MultiStageProgressBar \<times> world
     \<Rightarrow> (MultiStageProgressBar \<times> world) res" where
  "ms_update clk stage val (ms, w) =
     (let ms1 = ms\<lparr>update_calls := update_calls ms + 1\<rparr>;
          st = (case stage of None \<Rightarrow> int (num_stages ms1) - 1 | Some s \<Rightarrow> s)
      in case py_get (pbars ms1) st of
           None \<Rightarrow> Raise IndexError (ms1, w)
         | Some pb \<Rightarrow>
             (case pb_update0 clk None (pb, w) of
                Raise e (pb', w') \<Rightarrow> Raise e (ms1, w')
              | Ok (pb', w') \<Rightarrow>
                  (let ms2 = ms1\<lparr>pbars := the (py_set (pbars ms1) st pb')\<rparr>
                   in if finished pb' then
                        if 0 < st \<and> st < int (num_stages ms2) then
                          (case reset_stage st None None (ms2, w') of
                             Raise e s' \<Rightarrow> Raise e s'
                           | Ok s' \<Rightarrow> ms_update clk (Some (st - 1)) None s')
                        else if st = 0 then
                          (let ms3 = ms2\<lparr>ms_finished := True\<rparr>
                           in case update_all clk maxval (pbars ms3) w' of
                                Raise e (pbs, w'') \<Rightarrow> Raise e (ms3\<lparr>pbars := pbs\<rparr>, w'')
                              | Ok (pbs, w'') \<Rightarrow> Ok (print_bars (ms3\<lparr>pbars := pbs\<rparr>, w'')))
                        else Ok (ms2, w')
                      else Ok (print_bars (ms2, w')))))"
  by pat_completeness auto
termination
  by (relation "measure (\<lambda>(clk, stage, val, ms, w).
        case stage of None \<Rightarrow> num_stages ms | Some s \<Rightarrow> nat s)")
     (auto split: option.splits)

declare ms_update.simps [simp del]


subsection \<open>Quantities of the layout\<close>







subsection \<open>Concrete objects\<close>

definition world0 :: world where
  "world0 = \<lparr>ticks = 0, sink = [], winch_handler = False\<rparr>"

definition seconds :: clock where
  \<comment> \<open>a clock that advances one second per reading\<close>
  "seconds n = of_nat n"

definition bar_of :: "int \<Rightarrow> int \<Rightarrow> int \<Rightarrow> widget list \<Rightarrow> ProgressBar" where
  \<comment> \<open>a bar that was never updated, as the constructor leaves it\<close>
  "bar_of mv tw cv ws =
     \<lparr>maxval = mv, term_width = tw, signal_set = False, currval = cv, finished = False,
      prev_percentage = - 1, start_time = None, seconds_elapsed = 0, widgets = ws\<rparr>"



subsection \<open>Sequences of calls on one bar\<close>

text \<open>
  A caller issues \<^verbatim>\<open>start()\<close>, \<^verbatim>\<open>update(v)\<close> and \<^verbatim>\<open>finish()\<close> in any
  order. After a call that raises, the bar is as the raise left it and the caller goes on.
\<close>

datatype pb_call = Start | Update "int option" | Finish


definition pb_call :: "clock \<Rightarrow> pb_call \<Rightarrow> ProgressBar \<times> world \<Rightarrow> (ProgressBar \<times> world) res" where
  "pb_call clk c s =
     (case c of Start \<Rightarrow> pb_start clk s | Update v \<Rightarrow> pb_update clk v s | Finish \<Rightarrow> pb_finish clk s)"




definition pct :: "widget list" where
  "pct = [Dynamic Percentage]"

subsection \<open>Sequences of calls on a multi-stage bar\<close>


definition fresh_stage :: "MultiStageProgressBar \<Rightarrow> nat \<Rightarrow> ProgressBar" where
  "fresh_stage ms i =
     bar_of (maxvals ms ! i) (stage_widths ms ! i) 0
       (if titles ms ! i \<noteq> [] then Literal (titles ms ! i) # default_widgets
        else default_widgets)"

definition same_widths :: "MultiStageProgressBar \<Rightarrow> MultiStageProgressBar \<Rightarrow> bool" where
  "same_widths ms ms' \<longleftrightarrow> stage_widths ms' = stage_widths ms \<and>
     ms_term_width ms' = ms_term_width ms \<and> num_stages ms' = num_stages ms"





definition thrice :: "('s \<Rightarrow> 's res) \<Rightarrow> 's \<Rightarrow> 's res" where
  "thrice f s = bindR (bindR (f s) f) f"



definition ms10 :: MultiStageProgressBar where
  "ms10 =
     \<lparr>maxvals = [10], num_stages = 1, ms_finished = False, titles = [[]],
      ms_term_width = 79, ms_signal_set = None, stage_widths = [79],
      pbars = [bar_of 10 79 0 default_widgets],
      cascade = True, update_calls = 0\<rparr>"

section \<open>Properties\<close>

subsection \<open>Layout\<close>





lemma length_ljust: "int (length s) \<le> n \<Longrightarrow> int (length (ljust s n)) = n"
  by (simp add: ljust_def)

lemma py_int_bounds:
  assumes "0 \<le> p" "p \<le> 100" "0 \<le> c"
  shows "0 \<le> py_int (p * of_int c / 100) \<and> py_int (p * of_int c / 100) \<le> c"
proof -
  have c: "(0::rat) \<le> of_int c" using assms(3) by simp
  have nn: "0 \<le> p * of_int c / 100" using assms(1) c by simp
  have "p * of_int c \<le> 100 * of_int c"
    using assms(2) c by (rule mult_right_mono)
  then have "p * of_int c / 100 \<le> of_int c" by simp
  then have "\<lfloor>p * of_int c / 100\<rfloor> \<le> c" by (simp add: floor_le_iff)
  moreover have "0 \<le> \<lfloor>p * of_int c / 100\<rfloor>" using nn by simp
  ultimately show ?thesis using nn by (simp add: py_int_def)
qed

lemma length_str_mul: "length m = 1 \<Longrightarrow> 0 \<le> k \<Longrightarrow> int (length (str_mul m k)) = k"
  by (simp add: str_mul_def length_concat sum_list_replicate)

lemma percentage_nonneg: "0 < maxval pb \<Longrightarrow> 0 \<le> currval pb \<Longrightarrow> 0 \<le> percentage pb"
  by (simp add: percentage_def)

lemma percentage_range:
  assumes "0 < maxval pbar" "0 \<le> currval pbar" "currval pbar \<le> maxval pbar"
  shows "0 \<le> percentage pbar \<and> percentage pbar \<le> 100"
proof -
  have "(of_int (currval pbar) :: rat) \<le> of_int (maxval pbar)" using assms(3) by simp
  then have "(of_int (currval pbar) :: rat) * 100 \<le> 100 * of_int (maxval pbar)" by simp
  then have "(of_int (currval pbar) :: rat) * 100 / of_int (maxval pbar) \<le> 100"
    using assms(1) by (simp add: pos_divide_le_eq)
  then show ?thesis using assms by (simp add: percentage_def)
qed

text \<open>
  The built-in \<open>Bar\<close> returns a string of the width it is given when its marker is one
  character and the width leaves room for the two borders. Below that width it returns
  the two borders alone, which is longer than the width.
\<close>

lemma Bar_exact:
  assumes "length m = 1" "0 < maxval pbar" "0 \<le> currval pbar" "currval pbar \<le> maxval pbar"
    and "int (length left) + int (length right) \<le> width"
  shows "int (length (Bar (MarkerStr m) left right pbar width)) = width"
proof -
  let ?c = "width - int (length left) - int (length right)"
  let ?k = "py_int (percentage pbar * of_int ?c / 100)"
  have c: "0 \<le> ?c" using assms(5) by simp
  have k: "0 \<le> ?k \<and> ?k \<le> ?c"
    using percentage_range [OF assms(2-4)] c py_int_bounds [of "percentage pbar" ?c] by blast
  then have "int (length (str_mul m ?k)) \<le> ?c"
    using assms(1) by (simp add: length_str_mul)
  then have "int (length (ljust (str_mul m ?k) ?c)) = ?c"
    by (rule length_ljust)
  then show ?thesis
    by (simp add: Bar_def Let_def format_marker_def)
qed





subsection \<open>A single update\<close>

lemma ProgressBar_init_fresh:
  assumes "0 < mv"
  shows "\<exists>pb w1. ProgressBar_init mv ws tw title tty w = Inr (pb, w1) \<and> maxval pb = mv \<and>
           currval pb = 0 \<and> \<not> finished pb \<and> prev_percentage pb = - 1 \<and>
           start_time pb = None \<and> seconds_elapsed pb = 0 \<and> sink w1 = sink w \<and>
           ticks w1 = ticks w"
  using assms
  by (cases tw; cases tty) (simp_all add: ProgressBar_init_def Let_def)

lemma pb_update0_first:
  assumes "0 < maxval pb" "0 \<le> v" "v \<le> maxval pb" "\<not> finished pb" "prev_percentage pb = - 1"
  shows "\<exists>pb' w'. pb_update0 clk (Some v) (pb, w) = Ok (pb', w') \<and> currval pb' = v \<and>
           maxval pb' = maxval pb \<and> (finished pb' \<longleftrightarrow> v = maxval pb)"
proof -
  have "0 \<le> percentage (pb\<lparr>currval := v\<rparr>)"
    using assms by (simp add: percentage_nonneg)
  then have "need_update (pb\<lparr>currval := v\<rparr>)"
    using assms by (simp add: need_update_def)
  then show ?thesis
    using assms by (simp add: pb_update0_def Let_def split: prod.splits)
qed

text \<open>
  Claim C7. A bar constructed with \<open>maxval > 0\<close> accepts \<open>update(v)\<close> for every
  \<open>0 \<le> v \<le> maxval\<close>; afterwards \<open>percentage()\<close> is \<open>v * 100 / maxval\<close> and
  \<open>finished\<close> holds exactly when \<open>v = maxval\<close>.
\<close>

theorem update_percentage_finished:
  assumes "0 < mv" "0 \<le> v" "v \<le> mv"
  shows "\<exists>pb w1 pb' w'.
           ProgressBar_init mv ws tw title tty w = Inr (pb, w1) \<and>
           pb_update clk (Some v) (pb, w1) = Ok (pb', w') \<and>
           percentage pb' = of_int v * 100 / of_int mv \<and>
           (finished pb' \<longleftrightarrow> v = mv)"
proof -
  obtain pb w1 where i: "ProgressBar_init mv ws tw title tty w = Inr (pb, w1)"
    "maxval pb = mv" "\<not> finished pb" "prev_percentage pb = - 1"
    using ProgressBar_init_fresh [OF assms(1)] by blast
  obtain pb' w' where u: "pb_update0 clk (Some v) (pb, w1) = Ok (pb', w')" "currval pb' = v"
    "maxval pb' = maxval pb" "finished pb' \<longleftrightarrow> v = maxval pb"
    using pb_update0_first [of pb v clk w1] assms i by auto
  have "\<exists>w''. pb_update clk (Some v) (pb, w1) = Ok (pb', w'')"
    using u(1) by (simp add: pb_update_def)
  then show ?thesis
    using i u by (auto simp: percentage_def)
qed

theorem update_percentage_finished_witness:
  "\<exists>pb w1 pb' w'.
     ProgressBar_init 4 [Dynamic Percentage] (Some 10) None None world0 = Inr (pb, w1) \<and>
     pb_update seconds (Some 1) (pb, w1) = Ok (pb', w') \<and>
     percentage pb' = 25 \<and> \<not> finished pb'"
  using update_percentage_finished [of 4 1 "[Dynamic Percentage]" "Some 10" None None world0 seconds]
  by simp

text \<open>
  Claim C8. \<open>update(v)\<close> with \<open>v < 0\<close> or \<open>v > maxval\<close> fails on the assertion of
  \<open>_update\<close> (the error the specification calls InvalidProgressValue). The bar is left as
  it was, field by field, with no clamped value stored, and the world is left as it was:
  nothing is written and the clock is not read.
\<close>

theorem update_out_of_range:
  "v < 0 \<or> maxval pb < v \<Longrightarrow> pb_update clk (Some v) (pb, w) = Raise AssertionError (pb, w)"
  by (auto simp: pb_update_def pb_update0_def)

theorem update_out_of_range_witness:
  "pb_update seconds (Some (- 1)) (bar_of 4 10 2 [Dynamic Percentage], world0) =
     Raise AssertionError (bar_of 4 10 2 [Dynamic Percentage], world0) \<and>
   pb_update seconds (Some 5) (bar_of 4 10 2 [Dynamic Percentage], world0) =
     Raise AssertionError (bar_of 4 10 2 [Dynamic Percentage], world0)"
  using update_out_of_range [of "- 1" "bar_of 4 10 2 [Dynamic Percentage]" seconds world0]
    update_out_of_range [of 5 "bar_of 4 10 2 [Dynamic Percentage]" seconds world0]
  by (simp add: bar_of_def)

subsection \<open>The finished flag\<close>


lemma pb_update0_Raise:
  "pb_update0 clk value (pb, w) = Raise e s' \<Longrightarrow> s' = (pb, w)"
  by (auto simp: pb_update0_def Let_def split: if_splits prod.splits)

lemma pb_update0_Ok:
  assumes "pb_update0 clk value (pb, w) = Ok (pb', w')"
  shows "maxval pb' = maxval pb \<and> widgets pb' = widgets pb \<and> term_width pb' = term_width pb \<and>
         signal_set pb' = signal_set pb \<and> sink w' = sink w \<and>
         winch_handler w' = winch_handler w \<and>
         currval pb' = (case value of None \<Rightarrow> currval pb + 1 | Some x \<Rightarrow> x) \<and>
         0 \<le> currval pb' \<and> currval pb' \<le> maxval pb \<and>
         (if percentage pb' = prev_percentage pb \<or> finished pb
          then w' = w \<and> start_time pb' = start_time pb \<and>
               seconds_elapsed pb' = seconds_elapsed pb \<and>
               prev_percentage pb' = prev_percentage pb \<and> finished pb' = finished pb
          else prev_percentage pb' = percentage pb' \<and>
               finished pb' = (currval pb' = maxval pb'))"
  using assms
  by (auto simp: pb_update0_def Let_def time_time_def percentage_def need_update_def
      split: if_splits prod.splits)


lemma pb_update_Raise:
  "pb_update clk value (pb, w) = Raise e s' \<Longrightarrow> s' = (pb, w)"
  by (cases "pb_update0 clk value (pb, w)")
     (auto simp: pb_update_def dest: pb_update0_Raise split: if_splits)

lemma pb_update_Ok:
  assumes "pb_update clk value (pb, w) = Ok (pb', w')"
  shows "\<exists>w1. pb_update0 clk value (pb, w) = Ok (pb', w1) \<and>
           w' = fd_write (format_line pb' @ [if finished pb' then CHR 0x0A else CHR 0x0D]) w1"
  using assms
  by (cases "pb_update0 clk value (pb, w)") (auto simp: pb_update_def split: if_splits)








lemmas eval_update = pb_call_def pb_start_def pb_finish_def pb_update_def
  pb_update0_def need_update_def percentage_def truthy_time_def time_time_def fd_write_def
  bar_of_def world0_def seconds_def Let_def




subsection \<open>finish\<close>

text \<open>
  Claim C9. On a bar that is not finished, \<open>finish()\<close> sets the flag, runs
  \<open>update(maxval)\<close> and writes exactly one line, terminated by a newline; the clock is not
  read. A second \<open>finish()\<close> returns the same bar and the same world: no field changes
  and nothing is written.
\<close>

theorem finish_idempotent:
  assumes "\<not> finished pb" "0 < maxval pb"
  shows "\<exists>pb' w'. pb_finish clk (pb, w) = Ok (pb', w') \<and>
           pb' = pb\<lparr>finished := True, currval := maxval pb\<rparr> \<and>
           sink w' = sink w @ [format_line pb' @ [CHR 0x0A]] \<and> ticks w' = ticks w \<and>
           pb_finish clk (pb', w') = Ok (pb', w')"
  using assms
  by (simp add: pb_finish_def pb_update_def pb_update0_def fd_write_def)

theorem finish_idempotent_witness:
  "\<exists>pb' w'. pb_finish seconds (bar_of 4 10 2 pct, world0) = Ok (pb', w') \<and>
     currval pb' = 4 \<and> finished pb' \<and> length (sink w') = 1 \<and>
     pb_finish seconds (pb', w') = Ok (pb', w')"
  using finish_idempotent [of "bar_of 4 10 2 pct" seconds world0]
  by (auto simp: bar_of_def world0_def)

subsection \<open>Two updates with the same value\<close>

text \<open>
  Claim C3 against the code: when an update leaves the bar unfinished, a second update with
  the same value (so the same percentage) changes no field and does not read the clock,
  but it writes the line once more. \<open>update\<close> writes after every \<open>_update\<close>, whether
  or not \<open>_need_update\<close> held, so the two calls write two lines.
\<close>

theorem update_same_value_writes:
  assumes "pb_update clk (Some v) (pb, w) = Ok (pb1, w1)" "\<not> finished pb1"
  shows "\<exists>w2. pb_update clk (Some v) (pb1, w1) = Ok (pb1, w2) \<and>
           sink w2 = sink w1 @ [format_line pb1 @ [CHR 0x0D]] \<and> ticks w2 = ticks w1 \<and>
           length (sink w2) = length (sink w) + 2"
proof -
  obtain w0 where u: "pb_update0 clk (Some v) (pb, w) = Ok (pb1, w0)"
    and w1: "w1 = fd_write (format_line pb1 @ [if finished pb1 then CHR 0x0A else CHR 0x0D]) w0"
    using pb_update_Ok [OF assms(1)] by blast
  note f = pb_update0_Ok [OF u]
  have cv: "v = currval pb1" using f by simp
  have rg: "0 \<le> currval pb1" "currval pb1 \<le> maxval pb1" using f by simp_all
  have pp: "percentage pb1 = prev_percentage pb1"
    using f assms(2) by (simp split: if_splits)
  have "pb_update0 clk (Some (currval pb1)) (pb1, w1) = Ok (pb1, w1)"
    using rg pp by (simp add: pb_update0_def need_update_def)
  then have "pb_update clk (Some v) (pb1, w1) =
               Ok (pb1, fd_write (format_line pb1 @ [CHR 0x0D]) w1)"
    using assms(2) cv by (simp add: pb_update_def)
  moreover have "sink w0 = sink w" using f by simp
  ultimately show ?thesis
    using assms(2) w1 by (simp add: fd_write_def)
qed

theorem update_same_value_writes_witness:
  "\<exists>pb1 w1 w2. pb_update seconds (Some 1) (bar_of 4 10 0 pct, world0) = Ok (pb1, w1) \<and>
     \<not> finished pb1 \<and> length (sink w1) = 1 \<and>
     pb_update seconds (Some 1) (pb1, w1) = Ok (pb1, w2) \<and>
     length (sink w2) = 2 \<and> ticks w2 = ticks w1"
proof -
  obtain pb1 w1 where u: "pb_update seconds (Some 1) (bar_of 4 10 0 pct, world0) = Ok (pb1, w1)"
    and nf: "\<not> finished pb1" and l: "length (sink w1) = 1"
    by (simp add: eval_update)
  show ?thesis
    using update_same_value_writes [OF u nf] u nf l by (auto simp: world0_def)
qed

subsection \<open>Stage resets\<close>





subsection \<open>The width fields are never assigned after construction\<close>






lemma same_widths_pbars: "same_widths ms (ms'\<lparr>pbars := ps\<rparr>) = same_widths ms ms'"
  by (simp add: same_widths_def)


lemma ms_update_unfold:
  assumes "ms1 = ms\<lparr>update_calls := update_calls ms + 1\<rparr>"
    and "st = (case stage of None \<Rightarrow> int (num_stages ms1) - 1 | Some s \<Rightarrow> s)"
  shows "ms_update clk stage val (ms, w) =
     (case py_get (pbars ms1) st of
        None \<Rightarrow> Raise IndexError (ms1, w)
      | Some pb \<Rightarrow>
          (case pb_update0 clk None (pb, w) of
             Raise e (pb', w') \<Rightarrow> Raise e (ms1, w')
           | Ok (pb', w') \<Rightarrow>
               (let ms2 = ms1\<lparr>pbars := the (py_set (pbars ms1) st pb')\<rparr>
                in if finished pb' then
                     if 0 < st \<and> st < int (num_stages ms2) then
                       (case reset_stage st None None (ms2, w') of
                          Raise e s' \<Rightarrow> Raise e s'
                        | Ok s' \<Rightarrow> ms_update clk (Some (st - 1)) None s')
                     else if st = 0 then
                       (let ms3 = ms2\<lparr>ms_finished := True\<rparr>
                        in case update_all clk maxval (pbars ms3) w' of
                             Raise e (pbs, w'') \<Rightarrow> Raise e (ms3\<lparr>pbars := pbs\<rparr>, w'')
                           | Ok (pbs, w'') \<Rightarrow> Ok (print_bars (ms3\<lparr>pbars := pbs\<rparr>, w'')))
                     else Ok (ms2, w')
                   else Ok (print_bars (ms2, w')))))"
  unfolding assms
  by (subst ms_update.simps, unfold Let_def, rule refl)







subsection \<open>The partition of the width\<close>




lemma build_pbars_length:
  "build_pbars xs w = Inr pbs \<Longrightarrow> length pbs = length xs"
  by (induction xs arbitrary: pbs) (auto split: sum.splits)


lemmas eval_ms = MultiStageProgressBar_init_def initial_stage_widths_def stage_pbar_def
  ProgressBar_init_def py_get_def py_set_def py_index_def reset_stage_def reset_one_def
  bindR_def print_bars_def pb_update0_def need_update_def percentage_def truthy_time_def
  time_time_def fd_write_def thrice_def Let_def

lemma py_int_half: "py_int (79 / 2) = 39"
  by (simp add: py_int_def floor_eq_iff)



lemma init_ms10: "MultiStageProgressBar_init [10] None None True None world0 = Inr (ms10, world0)"
  by (simp add: eval_ms ms10_def bar_of_def py_int_half)




subsection \<open>The update of a multi-stage bar\<close>

text \<open>
  Claim C5 against the code: \<open>update(stage, val)\<close> never reads \<open>val\<close>. The targeted
  tracker is advanced by \<open>_update()\<close> with no argument, so a call with an explicit value
  does what the call without one does: on \<^verbatim>\<open>MultiStageProgressBar(maxvals=[10])\<close>,
  \<open>update(stage=0, val=5)\<close> leaves the tracker at 1.
\<close>

theorem update_ignores_val:
  "ms_update clk stage (Some v) s = ms_update clk stage None s"
proof (cases s)
  case (Pair ms w)
  show ?thesis
    unfolding Pair
    using ms_update_unfold [OF refl refl, of clk stage "Some v" ms w]
      ms_update_unfold [OF refl refl, of clk stage None ms w]
    by simp
qed

theorem update_ignores_val_witness:
  "MultiStageProgressBar_init [10] None None True None world0 = Inr (ms10, world0) \<and>
   (\<exists>ms w. ms_update seconds (Some 0) (Some 5) (ms10, world0) = Ok (ms, w) \<and>
      map currval (pbars ms) = [1])"
proof -
  have "\<exists>ms w. ms_update seconds (Some 0) None (ms10, world0) = Ok (ms, w) \<and>
      map currval (pbars ms) = [1]"
    by (simp add: ms10_def ms_update.simps eval_ms bar_of_def seconds_def world0_def)
  then show ?thesis
    using update_ignores_val [of seconds "Some 0" 5 "(ms10, world0)"] init_ms10 by simp
qed

lemma fresh_stage_pbars [simp]: "fresh_stage (ms\<lparr>pbars := ps\<rparr>) i = fresh_stage ms i"
  by (simp add: fresh_stage_def)

lemma fresh_stage_calls [simp]: "fresh_stage (ms\<lparr>update_calls := k\<rparr>) i = fresh_stage ms i"
  by (simp add: fresh_stage_def)




lemma init_23:
  "\<exists>tw a b sset w1. MultiStageProgressBar_init [2, 3] None None casc tty w =
     Inr (\<lparr>maxvals = [2, 3], num_stages = 2, ms_finished = False, titles = [[], '' ''],
           ms_term_width = tw, ms_signal_set = sset, stage_widths = [a, b],
           pbars = [bar_of 2 a 0 default_widgets, bar_of 3 b 0 (Literal '' '' # default_widgets)],
           cascade = casc, update_calls = 0\<rparr>, w1)"
  by (cases tty) (simp_all add: eval_ms bar_of_def)

text \<open>
  Claim C2. On \<^verbatim>\<open>MultiStageProgressBar(maxvals=[2,3], cascade=True)\<close>, whatever the
  terminal and the clock answer, three calls \<open>update(stage=1)\<close> succeed and leave stage 1
  with the tracker it was constructed with (value 0, same maximum, title and width) and
  stage 0 at value 1, with nothing finished; \<open>update\<close> has run four times, the fourth
  being the one nested call for stage 0. Three more calls succeed and leave every
  tracker at its maximum and finished, and the composite flag set.
\<close>

theorem cascade_two_three:
  "\<exists>s0 ms3 w3 ms6 w6.
     MultiStageProgressBar_init [2, 3] None None True tty w = Inr s0 \<and>
     thrice (ms_update clk (Some 1) None) s0 = Ok (ms3, w3) \<and>
     map currval (pbars ms3) = [1, 0] \<and>
     pbars ms3 ! 1 = pbars (fst s0) ! 1 \<and> pbars ms3 ! 1 = fresh_stage (fst s0) 1 \<and>
     map finished (pbars ms3) = [False, False] \<and> \<not> ms_finished ms3 \<and>
     update_calls ms3 = 4 \<and>
     thrice (ms_update clk (Some 1) None) (ms3, w3) = Ok (ms6, w6) \<and>
     map currval (pbars ms6) = maxvals ms6 \<and> maxvals ms6 = [2, 3] \<and>
     map finished (pbars ms6) = [True, True] \<and> ms_finished ms6"
proof -
  obtain tw a b sset w1 where
    i: "MultiStageProgressBar_init [2, 3] None None True tty w =
     Inr (\<lparr>maxvals = [2, 3], num_stages = 2, ms_finished = False, titles = [[], '' ''],
           ms_term_width = tw, ms_signal_set = sset, stage_widths = [a, b],
           pbars = [bar_of 2 a 0 default_widgets, bar_of 3 b 0 (Literal '' '' # default_widgets)],
           cascade = True, update_calls = 0\<rparr>, w1)"
    using init_23 [of True tty w] by blast
  show ?thesis
    unfolding i
    by (simp add: ms_update.simps eval_ms bar_of_def fresh_stage_def)
qed

theorem cascade_two_three_witness:
  "\<exists>s0 ms3 w3 ms6 w6.
     MultiStageProgressBar_init [2, 3] None None True None world0 = Inr s0 \<and>
     thrice (ms_update seconds (Some 1) None) s0 = Ok (ms3, w3) \<and>
     map currval (pbars ms3) = [1, 0] \<and>
     pbars ms3 ! 1 = pbars (fst s0) ! 1 \<and> pbars ms3 ! 1 = fresh_stage (fst s0) 1 \<and>
     map finished (pbars ms3) = [False, False] \<and> \<not> ms_finished ms3 \<and>
     update_calls ms3 = 4 \<and>
     thrice (ms_update seconds (Some 1) None) (ms3, w3) = Ok (ms6, w6) \<and>
     map currval (pbars ms6) = maxvals ms6 \<and> maxvals ms6 = [2, 3] \<and>
     map finished (pbars ms6) = [True, True] \<and> ms_finished ms6"
  by (rule cascade_two_three)

end
